theory Spec2Isabelle
  imports Main "HOL-Library.Word"
begin

unbundle bit_operations_syntax

section \<open>Machine types\<close>

type_synonym u8 = "8 word"
type_synonym u16 = "16 word"

section \<open>The Home command (src/logic/home.cpp)\<close>

subsection \<open>Progress and error codes\<close>

text \<open>
  Modelled from the spec: the enumerations \<open>ProgressCode\<close> and \<open>ErrorCode\<close> are
  declared in headers that are not among the source files. \<open>home.cpp\<close> names three
  enumerators of each, the ones the spec lists; every other enumerator (and every other
  numeric value the field could be forced to hold) is carried by a catch-all constructor
  with its numeric code. Both enumerations have an enumerator called \<open>OK\<close>, so the
  two are always written with their type: \<open>ProgressCode.OK\<close> and \<open>ErrorCode.OK\<close>.
\<close>

datatype ProgressCode = OK | Homing | ERRInternal | OtherProgress u8

datatype ErrorCode = RUNNING | OK | INTERNAL | OtherError u16

text \<open>
  Modelled from the spec: the state enumeration of the idler and the selector, which
  \<open>mi::idler.State()\<close> and \<open>ms::selector.State()\<close> return, is declared outside
  the source files. \<open>home.cpp\<close> only compares against \<open>Ready\<close>, so every other
  state is carried by \<open>NotReady\<close> with its code.
\<close>

datatype MovableState = Ready | NotReady u8

subsection \<open>The command object\<close>

text \<open>\<open>Home\<close> has the two fields of the command base that \<open>home.cpp\<close> assigns.\<close>

record Home =
  state :: ProgressCode
  error :: ErrorCode

text \<open>
  \<open>Home::Reset(uint8_t /*param*/)\<close>: assigns \<open>error\<close>, then \<open>state\<close>, then calls
  \<open>InvalidateHomingAndFilamentState()\<close>.

  Modelled from the spec: \<open>InvalidateHomingAndFilamentState\<close> is a member of the command
  base class, whose definition is not among the source files. The spec describes it as
  the invalidation of cross-cutting state (homing and filament presence become unknown);
  it is the parameter \<open>invalidate\<close>, a function on the state \<open>'w\<close> of the modules,
  and it does not assign the command's own \<open>state\<close> and \<open>error\<close>.
\<close>

definition Reset :: "('w \<Rightarrow> 'w) \<Rightarrow> u8 \<Rightarrow> Home \<times> 'w \<Rightarrow> Home \<times> 'w" where
  "Reset invalidate param hw =
     (let h1 = (fst hw)\<lparr>error := RUNNING\<rparr>;
          h2 = h1\<lparr>state := Homing\<rparr>
      in (h2, invalidate (snd hw)))"

text \<open>
  \<open>Home::StepInner()\<close>. The two arguments \<open>idlerState\<close> and \<open>selectorState\<close> are
  what \<open>mi::idler.State()\<close> and \<open>ms::selector.State()\<close> return when the call is made:
  the axes are moved by the main loop between two calls, not by the command. The result
  is the returned \<open>bool\<close> and the command object after the call.

  The spec's \<open>Step\<close> of the Home command is this function: the base class's
  \<open>Step\<close>, which calls \<open>StepInner\<close>, is not among the source files.
\<close>

definition StepInner :: "MovableState \<Rightarrow> MovableState \<Rightarrow> Home \<Rightarrow> bool \<times> Home" where
  "StepInner idlerState selectorState h =
     (case state h of
        Homing \<Rightarrow>
          if idlerState = Ready \<and> selectorState = Ready
          then (False, h\<lparr>state := ProgressCode.OK, error := ErrorCode.OK\<rparr>)
          else (False, h)
      | ProgressCode.OK \<Rightarrow> (True, h)
      | _ \<Rightarrow> (True, h\<lparr>state := ERRInternal, error := INTERNAL\<rparr>))"

text \<open>Calling \<open>Reset\<close> once for every parameter of a list, first to last.\<close>

fun Resets :: "('w \<Rightarrow> 'w) \<Rightarrow> u8 list \<Rightarrow> Home \<times> 'w \<Rightarrow> Home \<times> 'w" where
  "Resets invalidate [] hw = hw"
| "Resets invalidate (p # ps) hw = Resets invalidate ps (Reset invalidate p hw)"

text \<open>
  A run of the command: \<open>Steps\<close> calls \<open>StepInner\<close> once for every pair of axis
  states of the list (the readings of the idler and of the selector at that call) and
  collects, for each call, the returned flag and the command object after the call.
\<close>

fun Steps :: "(MovableState \<times> MovableState) list \<Rightarrow> Home \<Rightarrow> (bool \<times> Home) list" where
  "Steps [] h = []"
| "Steps ((i, s) # rs) h = StepInner i s h # Steps rs (snd (StepInner i s h))"

text \<open>The two operations a caller has on the command, and a sequence of them.\<close>

datatype HomeCall = CallReset u8 | CallStep MovableState MovableState

fun call :: "('w \<Rightarrow> 'w) \<Rightarrow> HomeCall \<Rightarrow> Home \<times> 'w \<Rightarrow> Home \<times> 'w" where
  "call invalidate (CallReset p) hw = Reset invalidate p hw"
| "call invalidate (CallStep i s) hw = (snd (StepInner i s (fst hw)), snd hw)"

fun calls :: "('w \<Rightarrow> 'w) \<Rightarrow> HomeCall list \<Rightarrow> Home \<times> 'w \<Rightarrow> Home \<times> 'w" where
  "calls invalidate [] hw = hw"
| "calls invalidate (c # cs) hw = calls invalidate cs (call invalidate c hw)"

text \<open>The pairs of \<open>state\<close> and \<open>error\<close> that belong together.\<close>

definition lockstep :: "Home \<Rightarrow> bool" where
  "lockstep h =
     ((state h = Homing \<and> error h = RUNNING) \<or>
      (state h = ProgressCode.OK \<and> error h = ErrorCode.OK) \<or>
      (state h = ERRInternal \<and> error h = INTERNAL))"

section \<open>The register table and its access functions (src/registers.cpp)\<close>

subsection \<open>Memory and the modules behind the registers\<close>

text \<open>
  Raw-memory registers hold a \<open>void *\<close>. Memory is a map from addresses to bytes; a
  \<open>uint16_t\<close> occupies two consecutive bytes, low byte first (the AVR target is
  little-endian). \<open>nullptr\<close> is address 0.
\<close>

type_synonym ptr = nat

definition nullptr :: ptr where
  "nullptr = 0"

definition load_u8 :: "(ptr \<Rightarrow> u8) \<Rightarrow> ptr \<Rightarrow> u8" where
  "load_u8 m p = m p"

definition load_u16 :: "(ptr \<Rightarrow> u8) \<Rightarrow> ptr \<Rightarrow> u16" where
  "load_u16 m p = word_cat (m (p + 1)) (m p)"

definition store_u8 :: "(ptr \<Rightarrow> u8) \<Rightarrow> ptr \<Rightarrow> u8 \<Rightarrow> (ptr \<Rightarrow> u8)" where
  "store_u8 m p b = m(p := b)"

definition store_u16 :: "(ptr \<Rightarrow> u8) \<Rightarrow> ptr \<Rightarrow> u16 \<Rightarrow> (ptr \<Rightarrow> u8)" where
  "store_u16 m p v = (m(p := ucast v))(p + 1 := ucast (drop_bit 8 v))"


text \<open>
  The modules the table's lambdas call (\<open>mg::globals\<close>, \<open>application\<close>,
  \<open>mf::finda\<close>, \<open>mfs::fsensor\<close>, \<open>mpu::pulley\<close>, \<open>ms::selector\<close>, \<open>mi::idler\<close>), the constants
  of \<open>config\<close> and the version variables of \<open>version.hpp\<close> are declared outside the
  source files. They are parameters: \<open>'x\<close> is the state of those modules, and a
  \<open>Modules\<close> record gives every function and constant the table refers to. A getter
  has the value the lambda returns, that is the call's result converted to
  \<open>uint16_t\<close>; a setter takes the \<open>uint16_t\<close> the lambda passes on. For a version
  variable the record has its address and the \<open>sizeof\<close> of its type.
\<close>

record 'x Modules =
  toolCount :: u8
  project_major_ptr :: ptr
  project_major_sizeof :: nat
  project_minor_ptr :: ptr
  project_minor_sizeof :: nat
  project_revision_ptr :: ptr
  project_revision_sizeof :: nat
  project_build_number_ptr :: ptr
  project_build_number_sizeof :: nat
  globals_DriveErrors :: "'x \<Rightarrow> u16"
  application_CurrentProgressCode :: "'x \<Rightarrow> u16"
  application_CurrentErrorCode :: "'x \<Rightarrow> u16"
  globals_FilamentLoaded :: "'x \<Rightarrow> u16"
  globals_ActiveSlot :: "'x \<Rightarrow> u8"
  globals_SetFilamentLoaded :: "u8 \<Rightarrow> u16 \<Rightarrow> 'x \<Rightarrow> 'x"
  finda_Pressed :: "'x \<Rightarrow> u16"
  fsensor_Pressed :: "'x \<Rightarrow> u16"
  fsensor_ProcessMessage :: "bool \<Rightarrow> 'x \<Rightarrow> 'x"
  globals_MotorsStealth :: "'x \<Rightarrow> u16"
  globals_FSensorToNozzle_mm :: "'x \<Rightarrow> u16"
  globals_SetFSensorToNozzle_mm :: "u16 \<Rightarrow> 'x \<Rightarrow> 'x"
  globals_FSensorUnloadCheck_mm :: "'x \<Rightarrow> u16"
  globals_SetFSensorUnloadCheck_mm :: "u16 \<Rightarrow> 'x \<Rightarrow> 'x"
  globals_PulleyUnloadFeedrate_mm_s :: "'x \<Rightarrow> u16"
  globals_SetPulleyUnloadFeedrate_mm_s :: "u16 \<Rightarrow> 'x \<Rightarrow> 'x"
  config_pulleyLimits_accel :: u16
  config_selectorLimits_accel :: u16
  config_idlerLimits_accel :: u16
  globals_PulleyLoadFeedrate_mm_s :: "'x \<Rightarrow> u16"
  globals_SetPulleyLoadFeedrate_mm_s :: "u16 \<Rightarrow> 'x \<Rightarrow> 'x"
  globals_SelectorFeedrate_mm_s :: "'x \<Rightarrow> u16"
  globals_SetSelectorFeedrate_mm_s :: "u16 \<Rightarrow> 'x \<Rightarrow> 'x"
  globals_IdlerFeedrate_deg_s :: "'x \<Rightarrow> u16"
  globals_SetIdlerFeedrate_deg_s :: "u16 \<Rightarrow> 'x \<Rightarrow> 'x"
  globals_PulleySlowFeedrate_mm_s :: "'x \<Rightarrow> u16"
  globals_SetPulleySlowFeedrate_mm_s :: "u16 \<Rightarrow> 'x \<Rightarrow> 'x"
  config_selectorHomingFeedrate :: u16
  config_idlerHomingFeedrate :: u16
  config_pulley_sg_thrs :: u16
  config_selector_sg_thrs :: u16
  config_idler_sg_thrs :: u16
  pulley_CurrentPosition_mm :: "'x \<Rightarrow> u16"
  selector_Slot :: "'x \<Rightarrow> u16"
  selector_MoveToSlot :: "u16 \<Rightarrow> 'x \<Rightarrow> 'x"
  idler_Slot :: "'x \<Rightarrow> u16"
  idler_Disengage :: "'x \<Rightarrow> 'x"
  idler_Engage :: "u16 \<Rightarrow> 'x \<Rightarrow> 'x"

text \<open>The state the register functions work on: memory and the modules.\<close>

record 'x Machine =
  mem :: "ptr \<Rightarrow> u8"
  ext :: 'x

subsection \<open>Register descriptors\<close>

text \<open>
  \<open>struct RegisterFlags\<close>: \<open>size\<close> is a two-bit field (0: 1 bit, 1: 1 byte,
  2: 2 bytes), so the \<open>uint8_t\<close> given to a constructor is cut to two bits. The field
  is called \<open>rsize\<close> here.
\<close>

record RegisterFlags =
  writable :: bool
  rwfuncs :: bool
  rsize :: "2 word"

definition RegisterFlags2 :: "bool \<Rightarrow> u8 \<Rightarrow> RegisterFlags" where
  "RegisterFlags2 w sz = \<lparr>writable = w, rwfuncs = False, rsize = ucast sz\<rparr>"

definition RegisterFlags3 :: "bool \<Rightarrow> bool \<Rightarrow> u8 \<Rightarrow> RegisterFlags" where
  "RegisterFlags3 w rw sz = \<lparr>writable = w, rwfuncs = rw, rsize = ucast sz\<rparr>"

text \<open>
  \<open>TReadFunc\<close> and \<open>TWriteFunc\<close> are pointers to functions without captured state;
  what they read and change is the global state, here the argument \<open>'s\<close>. The
  lambdas of the table that are read functions only call getters.

  The unions \<open>U1\<close> and \<open>U2\<close> hold either an address or a function. Reading the
  member that was not stored is left unspecified, as the selectors of a datatype are
  on the other constructor; the four constructors of \<open>RegisterRec\<close> set \<open>rwfuncs\<close>
  together with the member they store.
\<close>

type_synonym 's TReadFunc = "'s \<Rightarrow> u16"
type_synonym 's TWriteFunc = "u16 \<Rightarrow> 's \<Rightarrow> 's"

datatype 's U1 = U1_addr (addr: ptr) | U1_readFunc (readFunc: "'s TReadFunc")

datatype 's U2 = U2_addr (addr: ptr) | U2_writeFunc (writeFunc: "'s TWriteFunc")

record 's RegisterRec =
  flags :: RegisterFlags
  A1 :: "'s U1"
  A2 :: "'s U2"

text \<open>
  The four constructors of \<open>RegisterRec\<close>: for a variable at an address (a template
  over its type \<open>T\<close>, of which \<open>sizeof(T)\<close> is the second argument here), for a read
  function, for a read and a write function, and the default one on \<open>dummyZero\<close>.
\<close>

definition RegisterRec_addr :: "bool \<Rightarrow> nat \<Rightarrow> ptr \<Rightarrow> 's RegisterRec" where
  "RegisterRec_addr w sizeof_T address =
     \<lparr>flags = RegisterFlags2 w (of_nat sizeof_T), A1 = U1_addr address, A2 = U2_addr nullptr\<rparr>"

definition RegisterRec_r :: "'s TReadFunc \<Rightarrow> u8 \<Rightarrow> 's RegisterRec" where
  "RegisterRec_r readF bytes =
     \<lparr>flags = RegisterFlags3 False True bytes, A1 = U1_readFunc readF, A2 = U2_addr nullptr\<rparr>"

definition RegisterRec_rw :: "'s TReadFunc \<Rightarrow> 's TWriteFunc \<Rightarrow> u8 \<Rightarrow> 's RegisterRec" where
  "RegisterRec_rw readF writeF bytes =
     \<lparr>flags = RegisterFlags3 True True bytes, A1 = U1_readFunc readF, A2 = U2_writeFunc writeF\<rparr>"

definition RegisterRec_default :: "ptr \<Rightarrow> 's RegisterRec" where
  "RegisterRec_default dummyZero_ptr =
     \<lparr>flags = RegisterFlags3 False False 1, A1 = U1_addr dummyZero_ptr, A2 = U2_addr nullptr\<rparr>"

subsection \<open>The table\<close>

text \<open>
  \<open>registers[]\<close>, one descriptor for each address from 0x00 to 0x1c, in the order of
  the source. \<open>X\<close> gives the modules' functions and constants. In 0x07 the cast of
  \<open>v\<close> to the filament load state is left to the setter. In 0x1c the comparison
  \<open>d >= config::toolCount\<close> is between a \<open>uint16_t\<close> and a \<open>uint8_t\<close>, both
  promoted: the write function calls \<open>Disengage()\<close> when it holds and \<open>Engage(d)\<close>
  when it does not.
\<close>

definition registers :: "'x Modules \<Rightarrow> ('x Machine) RegisterRec list" where
  "registers X =
     [
      \<comment> \<open>0x00\<close>
      RegisterRec_addr False (project_major_sizeof X) (project_major_ptr X),
      \<comment> \<open>0x01\<close>
      RegisterRec_addr False (project_minor_sizeof X) (project_minor_ptr X),
      \<comment> \<open>0x02\<close>
      RegisterRec_addr False (project_revision_sizeof X) (project_revision_ptr X),
      \<comment> \<open>0x03\<close>
      RegisterRec_addr False (project_build_number_sizeof X) (project_build_number_ptr X),
      \<comment> \<open>0x04\<close>
      RegisterRec_r (\<lambda>s. globals_DriveErrors X (ext s)) 2,
      \<comment> \<open>0x05\<close>
      RegisterRec_r (\<lambda>s. application_CurrentProgressCode X (ext s)) 1,
      \<comment> \<open>0x06\<close>
      RegisterRec_r (\<lambda>s. application_CurrentErrorCode X (ext s)) 2,
      \<comment> \<open>0x07\<close>
      RegisterRec_rw
        (\<lambda>s. globals_FilamentLoaded X (ext s))
        (\<lambda>v s. s\<lparr>ext := globals_SetFilamentLoaded X (globals_ActiveSlot X (ext s)) v (ext s)\<rparr>)
        1,
      \<comment> \<open>0x08\<close>
      RegisterRec_r (\<lambda>s. finda_Pressed X (ext s)) 1,
      \<comment> \<open>0x09\<close>
      RegisterRec_rw
        (\<lambda>s. fsensor_Pressed X (ext s))
        (\<lambda>v s. s\<lparr>ext := fsensor_ProcessMessage X (v \<noteq> 0) (ext s)\<rparr>)
        1,
      \<comment> \<open>0x0a\<close>
      RegisterRec_r (\<lambda>s. globals_MotorsStealth X (ext s)) 1,
      \<comment> \<open>0x0b\<close>
      RegisterRec_rw
        (\<lambda>s. globals_FSensorToNozzle_mm X (ext s))
        (\<lambda>d s. s\<lparr>ext := globals_SetFSensorToNozzle_mm X d (ext s)\<rparr>)
        1,
      \<comment> \<open>0x0c\<close>
      RegisterRec_rw
        (\<lambda>s. globals_FSensorUnloadCheck_mm X (ext s))
        (\<lambda>d s. s\<lparr>ext := globals_SetFSensorUnloadCheck_mm X d (ext s)\<rparr>)
        1,
      \<comment> \<open>0x0d\<close>
      RegisterRec_rw
        (\<lambda>s. globals_PulleyUnloadFeedrate_mm_s X (ext s))
        (\<lambda>d s. s\<lparr>ext := globals_SetPulleyUnloadFeedrate_mm_s X d (ext s)\<rparr>)
        2,
      \<comment> \<open>0x0e\<close>
      RegisterRec_r (\<lambda>s. config_pulleyLimits_accel X) 2,
      \<comment> \<open>0x0f\<close>
      RegisterRec_r (\<lambda>s. config_selectorLimits_accel X) 2,
      \<comment> \<open>0x10\<close>
      RegisterRec_r (\<lambda>s. config_idlerLimits_accel X) 2,
      \<comment> \<open>0x11\<close>
      RegisterRec_rw
        (\<lambda>s. globals_PulleyLoadFeedrate_mm_s X (ext s))
        (\<lambda>d s. s\<lparr>ext := globals_SetPulleyLoadFeedrate_mm_s X d (ext s)\<rparr>)
        2,
      \<comment> \<open>0x12\<close>
      RegisterRec_rw
        (\<lambda>s. globals_SelectorFeedrate_mm_s X (ext s))
        (\<lambda>d s. s\<lparr>ext := globals_SetSelectorFeedrate_mm_s X d (ext s)\<rparr>)
        2,
      \<comment> \<open>0x13\<close>
      RegisterRec_rw
        (\<lambda>s. globals_IdlerFeedrate_deg_s X (ext s))
        (\<lambda>d s. s\<lparr>ext := globals_SetIdlerFeedrate_deg_s X d (ext s)\<rparr>)
        2,
      \<comment> \<open>0x14\<close>
      RegisterRec_rw
        (\<lambda>s. globals_PulleySlowFeedrate_mm_s X (ext s))
        (\<lambda>d s. s\<lparr>ext := globals_SetPulleySlowFeedrate_mm_s X d (ext s)\<rparr>)
        2,
      \<comment> \<open>0x15\<close>
      RegisterRec_r (\<lambda>s. config_selectorHomingFeedrate X) 2,
      \<comment> \<open>0x16\<close>
      RegisterRec_r (\<lambda>s. config_idlerHomingFeedrate X) 2,
      \<comment> \<open>0x17\<close>
      RegisterRec_r (\<lambda>s. config_pulley_sg_thrs X) 2,
      \<comment> \<open>0x18\<close>
      RegisterRec_r (\<lambda>s. config_selector_sg_thrs X) 2,
      \<comment> \<open>0x19\<close>
      RegisterRec_r (\<lambda>s. config_idler_sg_thrs X) 2,
      \<comment> \<open>0x1a\<close>
      RegisterRec_r (\<lambda>s. pulley_CurrentPosition_mm X (ext s)) 2,
      \<comment> \<open>0x1b\<close>
      RegisterRec_rw
        (\<lambda>s. selector_Slot X (ext s))
        (\<lambda>d s. s\<lparr>ext := selector_MoveToSlot X d (ext s)\<rparr>)
        1,
      \<comment> \<open>0x1c\<close>
      RegisterRec_rw
        (\<lambda>s. idler_Slot X (ext s))
        (\<lambda>d s. if ucast (toolCount X) \<le> d
               then s\<lparr>ext := idler_Disengage X (ext s)\<rparr>
               else s\<lparr>ext := idler_Engage X d (ext s)\<rparr>)
        1
     ]"

subsection \<open>Reading and writing a register\<close>

text \<open>
  \<open>ReadRegister\<close> and \<open>WriteRegister\<close> work on the static table \<open>registers\<close>,
  which is the first argument here, so that the two functions can also be stated on
  tables other than the one above. \<open>registersSize\<close> is a \<open>uint8_t\<close>.
\<close>

definition registersSize :: "'s RegisterRec list \<Rightarrow> u8" where
  "registersSize regs = of_nat (length regs)"

text \<open>
  \<open>bool ReadRegister(uint8_t address, uint16_t &value)\<close>: the result is the returned
  flag and the content of \<open>value\<close> after the call; the argument \<open>value\<close> is its
  content before.
\<close>

definition ReadRegister ::
  "('x Machine) RegisterRec list \<Rightarrow> u8 \<Rightarrow> u16 \<Rightarrow> 'x Machine \<Rightarrow> bool \<times> u16" where
  "ReadRegister regs address value s =
     (if registersSize regs \<le> address then (False, value)
      else
        let value0 = 0;
            r = regs ! unat address
        in
          if \<not> rwfuncs (flags r) then
            (if rsize (flags r) = 0 \<or> rsize (flags r) = 1
               then (True, ucast (load_u8 (mem s) (U1.addr (A1 r))))
             else if rsize (flags r) = 2
               then (True, load_u16 (mem s) (U1.addr (A1 r)))
             else (False, value0))
          else
            (if rsize (flags r) = 0 \<or> rsize (flags r) = 1 \<or> rsize (flags r) = 2
               then (True, readFunc (A1 r) s)
             else (False, value0)))"

text \<open>
  \<open>bool WriteRegister(uint8_t address, uint16_t value)\<close>: the result is the returned
  flag and the state after the call. A raw write goes through \<open>A1.addr\<close>, as in the
  source; storing into a \<open>uint8_t\<close> keeps the low byte of \<open>value\<close>.
\<close>

definition WriteRegister ::
  "('x Machine) RegisterRec list \<Rightarrow> u8 \<Rightarrow> u16 \<Rightarrow> 'x Machine \<Rightarrow> bool \<times> 'x Machine" where
  "WriteRegister regs address value s =
     (if registersSize regs \<le> address then (False, s)
      else
        let r = regs ! unat address
        in
          if \<not> writable (flags r) then (False, s)
          else if \<not> rwfuncs (flags r) then
            (if rsize (flags r) = 0 \<or> rsize (flags r) = 1
               then (True, s\<lparr>mem := store_u8 (mem s) (U1.addr (A1 r)) (ucast value)\<rparr>)
             else if rsize (flags r) = 2
               then (True, s\<lparr>mem := store_u16 (mem s) (U1.addr (A1 r)) value\<rparr>)
             else (False, s))
          else
            (if rsize (flags r) = 0 \<or> rsize (flags r) = 1 \<or> rsize (flags r) = 2
               then (True, writeFunc (A2 r) value s)
             else (False, s)))"

subsection \<open>Stub modules and small tables\<close>

text \<open>
  Instances of the modules in the manner of a unit test's stubs. In
  \<open>stubModulesWith\<close> every getter but the idler's returns 0, every setter but the
  idler's does nothing, the tool count is 5, and the version variables are four bytes
  at the addresses 16 to 19; the three functions of the idler are its arguments.
\<close>

definition stubModulesWith ::
  "('x \<Rightarrow> u16) \<Rightarrow> ('x \<Rightarrow> 'x) \<Rightarrow> (u16 \<Rightarrow> 'x \<Rightarrow> 'x) \<Rightarrow> 'x Modules" where
  "stubModulesWith slotF disengageF engageF =
     \<lparr>toolCount = 5,
      project_major_ptr = 16, project_major_sizeof = 1,
      project_minor_ptr = 17, project_minor_sizeof = 1,
      project_revision_ptr = 18, project_revision_sizeof = 1,
      project_build_number_ptr = 19, project_build_number_sizeof = 1,
      globals_DriveErrors = (\<lambda>x. 0),
      application_CurrentProgressCode = (\<lambda>x. 0),
      application_CurrentErrorCode = (\<lambda>x. 0),
      globals_FilamentLoaded = (\<lambda>x. 0),
      globals_ActiveSlot = (\<lambda>x. 0),
      globals_SetFilamentLoaded = (\<lambda>slot v x. x),
      finda_Pressed = (\<lambda>x. 0),
      fsensor_Pressed = (\<lambda>x. 0),
      fsensor_ProcessMessage = (\<lambda>b x. x),
      globals_MotorsStealth = (\<lambda>x. 0),
      globals_FSensorToNozzle_mm = (\<lambda>x. 0),
      globals_SetFSensorToNozzle_mm = (\<lambda>d x. x),
      globals_FSensorUnloadCheck_mm = (\<lambda>x. 0),
      globals_SetFSensorUnloadCheck_mm = (\<lambda>d x. x),
      globals_PulleyUnloadFeedrate_mm_s = (\<lambda>x. 0),
      globals_SetPulleyUnloadFeedrate_mm_s = (\<lambda>d x. x),
      config_pulleyLimits_accel = 0,
      config_selectorLimits_accel = 0,
      config_idlerLimits_accel = 0,
      globals_PulleyLoadFeedrate_mm_s = (\<lambda>x. 0),
      globals_SetPulleyLoadFeedrate_mm_s = (\<lambda>d x. x),
      globals_SelectorFeedrate_mm_s = (\<lambda>x. 0),
      globals_SetSelectorFeedrate_mm_s = (\<lambda>d x. x),
      globals_IdlerFeedrate_deg_s = (\<lambda>x. 0),
      globals_SetIdlerFeedrate_deg_s = (\<lambda>d x. x),
      globals_PulleySlowFeedrate_mm_s = (\<lambda>x. 0),
      globals_SetPulleySlowFeedrate_mm_s = (\<lambda>d x. x),
      config_selectorHomingFeedrate = 0,
      config_idlerHomingFeedrate = 0,
      config_pulley_sg_thrs = 0,
      config_selector_sg_thrs = 0,
      config_idler_sg_thrs = 0,
      pulley_CurrentPosition_mm = (\<lambda>x. 0),
      selector_Slot = (\<lambda>x. 0),
      selector_MoveToSlot = (\<lambda>d x. x),
      idler_Slot = slotF,
      idler_Disengage = disengageF,
      idler_Engage = engageF\<rparr>"

text \<open>Modules without state, and a machine on them with zeroed memory.\<close>

definition stubModules :: "unit Modules" where
  "stubModules = stubModulesWith (\<lambda>x. 0) (\<lambda>x. x) (\<lambda>d x. x)"

definition stubMachine :: "unit Machine" where
  "stubMachine = \<lparr>mem = (\<lambda>p. 0), ext = ()\<rparr>"







text \<open>
  A table of three descriptors that the constructors allow and the table above has no
  instance of: a writable byte at address 32, a writable \<open>uint16_t\<close> at address 34,
  and a read function declared with 3 bytes.
\<close>

definition smallTable :: "(unit Machine) RegisterRec list" where
  "smallTable =
     [RegisterRec_addr True 1 32,
      RegisterRec_addr True 2 34,
      RegisterRec_r (\<lambda>s. 7) 3]"

section \<open>Properties of the Home command\<close>

subsection \<open>One call\<close>

lemma Reset_state [simp]: "state (fst (Reset invalidate p hw)) = Homing"
  by (simp add: Reset_def)

lemma Reset_error [simp]: "error (fst (Reset invalidate p hw)) = RUNNING"
  by (simp add: Reset_def)

lemma Reset_fst: "fst (Reset invalidate p hw) = \<lparr>state = Homing, error = RUNNING\<rparr>"
  by (cases "fst hw") (simp add: Reset_def)

lemma StepInner_Homing_waiting:
  "state h = Homing \<Longrightarrow> \<not> (i = Ready \<and> s = Ready) \<Longrightarrow> StepInner i s h = (False, h)"
  by (auto simp add: StepInner_def)

lemma StepInner_OK: "state h = ProgressCode.OK \<Longrightarrow> StepInner i s h = (True, h)"
  by (simp add: StepInner_def)

lemma StepInner_other:
  "state h \<noteq> Homing \<Longrightarrow> state h \<noteq> ProgressCode.OK \<Longrightarrow>
   StepInner i s h = (True, h\<lparr>state := ERRInternal, error := INTERNAL\<rparr>)"
  by (cases "state h") (simp_all add: StepInner_def)

lemma StepInner_returns: "fst (StepInner i s h) = (state h \<noteq> Homing)"
  by (cases "state h") (simp_all add: StepInner_def)

subsection \<open>Repeated Reset\<close>

lemma Resets_snoc:
  "Resets invalidate (ps @ [p]) hw = Reset invalidate p (Resets invalidate ps hw)"
  by (induction ps arbitrary: hw) simp_all

text \<open>
  C7. \<open>Home::Reset\<close> called any number of times in a row (at least once), with any
  parameters and from any prior state and error, leaves \<open>state = Homing\<close> and
  \<open>error = RUNNING\<close>.
\<close>

theorem Reset_repeated:
  "state (fst (Resets invalidate (p # ps) hw)) = Homing \<and>
   error (fst (Resets invalidate (p # ps) hw)) = RUNNING"
proof (cases ps rule: rev_cases)
  case Nil
  then show ?thesis by simp
next
  case (snoc qs q)
  have "Resets invalidate (p # ps) hw = Reset invalidate q (Resets invalidate (p # qs) hw)"
    using snoc Resets_snoc [of invalidate "p # qs" q hw] by simp
  then show ?thesis by simp
qed

subsection \<open>What Step returns\<close>

text \<open>
  C2, as the code has it. When the idler and the selector are both \<open>Ready\<close> at the
  first step after \<open>Reset\<close>, that step sets \<open>state = OK\<close> and \<open>error = OK\<close> and
  returns \<open>false\<close>; the step after it, whatever the axes report, returns \<open>true\<close>
  with \<open>state = OK\<close> and \<open>error = OK\<close>. In general a step returns \<open>true\<close> exactly
  when the state it finds is not \<open>Homing\<close>, and whenever it returns \<open>true\<close> the
  state after it is \<open>OK\<close> or \<open>ERRInternal\<close>.
\<close>

theorem Home_Step_reports_completion:
  "StepInner Ready Ready (fst (Reset invalidate p hw)) =
     (False, \<lparr>state = ProgressCode.OK, error = ErrorCode.OK\<rparr>) \<and>
   StepInner i s (snd (StepInner Ready Ready (fst (Reset invalidate p hw)))) =
     (True, \<lparr>state = ProgressCode.OK, error = ErrorCode.OK\<rparr>) \<and>
   fst (StepInner i s h) = (state h \<noteq> Homing) \<and>
   (fst (StepInner i s h) \<longrightarrow>
      state (snd (StepInner i s h)) = ProgressCode.OK \<or>
      state (snd (StepInner i s h)) = ERRInternal)"
proof -
  have a: "StepInner Ready Ready (fst (Reset invalidate p hw)) =
     (False, \<lparr>state = ProgressCode.OK, error = ErrorCode.OK\<rparr>)"
    by (simp add: Reset_fst StepInner_def)
  have b: "StepInner i s \<lparr>state = ProgressCode.OK, error = ErrorCode.OK\<rparr> =
     (True, \<lparr>state = ProgressCode.OK, error = ErrorCode.OK\<rparr>)"
    by (simp add: StepInner_def)
  have c: "fst (StepInner i s h) = (state h \<noteq> Homing)"
    by (rule StepInner_returns)
  have d: "fst (StepInner i s h) \<longrightarrow>
      state (snd (StepInner i s h)) = ProgressCode.OK \<or>
      state (snd (StepInner i s h)) = ERRInternal"
    by (cases "state h") (simp_all add: StepInner_def)
  from a b c d show ?thesis by simp
qed

theorem Home_Step_reports_completion_witness:
  "fst (StepInner (NotReady 1) Ready \<lparr>state = OtherProgress 42, error = RUNNING\<rparr>) \<and>
   (state (snd (StepInner (NotReady 1) Ready \<lparr>state = OtherProgress 42, error = RUNNING\<rparr>)) = ProgressCode.OK \<or>
    state (snd (StepInner (NotReady 1) Ready \<lparr>state = OtherProgress 42, error = RUNNING\<rparr>)) = ERRInternal)"
proof -
  have returned: "fst (StepInner (NotReady 1) Ready \<lparr>state = OtherProgress 42, error = RUNNING\<rparr>)"
    by (simp add: StepInner_def)
  with Home_Step_reports_completion [of id 0 "(\<lparr>state = ERRInternal, error = INTERNAL\<rparr>, ())"
      "NotReady 1" Ready "\<lparr>state = OtherProgress 42, error = RUNNING\<rparr>"]
  have "state (snd (StepInner (NotReady 1) Ready \<lparr>state = OtherProgress 42, error = RUNNING\<rparr>)) = ProgressCode.OK \<or>
    state (snd (StepInner (NotReady 1) Ready \<lparr>state = OtherProgress 42, error = RUNNING\<rparr>)) = ERRInternal"
    by blast
  with returned show ?thesis by (rule conjI)
qed

text \<open>
  The first step after a \<open>Reset\<close>, with both axes \<open>Ready\<close>: the command reaches
  \<open>OK\<close> with error \<open>OK\<close>, and the call returns \<open>false\<close>.
\<close>

theorem Home_first_Step_returns_false:
  "\<not> fst (StepInner Ready Ready (fst (Reset id 0 (\<lparr>state = ERRInternal, error = INTERNAL\<rparr>, ())))) \<and>
   state (snd (StepInner Ready Ready (fst (Reset id 0 (\<lparr>state = ERRInternal, error = INTERNAL\<rparr>, ()))))) = ProgressCode.OK \<and>
   error (snd (StepInner Ready Ready (fst (Reset id 0 (\<lparr>state = ERRInternal, error = INTERNAL\<rparr>, ()))))) = ErrorCode.OK"
  by (simp add: Reset_def StepInner_def)

subsection \<open>A run of steps\<close>

lemma Steps_waiting:
  "state h = Homing \<Longrightarrow> \<forall>(i, s) \<in> set pre. \<not> (i = Ready \<and> s = Ready) \<Longrightarrow>
   Steps pre h = replicate (length pre) (False, h)"
proof (induction pre)
  case Nil
  then show ?case by simp
next
  case (Cons r pre)
  obtain i s where r: "r = (i, s)" by (cases r)
  from Cons.prems r have "\<not> (i = Ready \<and> s = Ready)" by simp
  with Cons.prems(1) have step: "StepInner i s h = (False, h)"
    by (rule StepInner_Homing_waiting)
  from Cons have "Steps pre h = replicate (length pre) (False, h)" by simp
  with step r show ?case by simp
qed

lemma Steps_OK:
  "state h = ProgressCode.OK \<Longrightarrow> Steps post h = replicate (length post) (True, h)"
proof (induction post)
  case Nil
  then show ?case by simp
next
  case (Cons r post)
  obtain i s where r: "r = (i, s)" by (cases r)
  from Cons.prems have "StepInner i s h = (True, h)" by (rule StepInner_OK)
  with Cons r show ?case by simp
qed

lemma Steps_append:
  "Steps (xs @ ys) h = Steps xs h @ Steps ys (if xs = [] then h else snd (last (Steps xs h)))"
proof (induction xs arbitrary: h)
  case Nil
  then show ?case by simp
next
  case (Cons r xs)
  obtain i s where r: "r = (i, s)" by (cases r)
  show ?case
  proof (cases "xs = []")
    case True
    with r show ?thesis by simp
  next
    case False
    then have ne: "Steps xs (snd (StepInner i s h)) \<noteq> []"
      by (cases xs) auto
    from Cons [of "snd (StepInner i s h)"] False r ne show ?thesis by simp
  qed
qed

text \<open>
  C5. After \<open>Reset\<close>, as long as the idler or the selector is not \<open>Ready\<close>, every
  step returns \<open>false\<close> and leaves \<open>state = Homing\<close>, \<open>error = RUNNING\<close>. At the
  first step that finds both \<open>Ready\<close> the state becomes \<open>OK\<close> (with error \<open>OK\<close>),
  and it stays so at every later step, whatever the axes report then.
\<close>

theorem Home_waits_then_finishes_once:
  assumes "\<forall>(i, s) \<in> set pre. \<not> (i = Ready \<and> s = Ready)"
  shows "Steps pre (fst (Reset invalidate p hw)) =
           replicate (length pre) (False, \<lparr>state = Homing, error = RUNNING\<rparr>) \<and>
         Steps (pre @ (Ready, Ready) # post) (fst (Reset invalidate p hw)) =
           replicate (length pre) (False, \<lparr>state = Homing, error = RUNNING\<rparr>) @
           (False, \<lparr>state = ProgressCode.OK, error = ErrorCode.OK\<rparr>) #
           replicate (length post) (True, \<lparr>state = ProgressCode.OK, error = ErrorCode.OK\<rparr>)"
proof -
  let ?h0 = "\<lparr>state = Homing, error = RUNNING\<rparr>"
  let ?h1 = "\<lparr>state = ProgressCode.OK, error = ErrorCode.OK\<rparr>"
  have h0: "fst (Reset invalidate p hw) = ?h0" by (rule Reset_fst)
  have pre: "Steps pre ?h0 = replicate (length pre) (False, ?h0)"
    using assms by (intro Steps_waiting) simp_all
  have last: "(if pre = [] then ?h0 else snd (last (Steps pre ?h0))) = ?h0"
    by (simp add: pre)
  have step: "StepInner Ready Ready ?h0 = (False, ?h1)"
    by (simp add: StepInner_def)
  have post: "Steps post ?h1 = replicate (length post) (True, ?h1)"
    by (intro Steps_OK) simp
  have "Steps (pre @ (Ready, Ready) # post) ?h0 =
          Steps pre ?h0 @ Steps ((Ready, Ready) # post) ?h0"
    using Steps_append [of pre "(Ready, Ready) # post" ?h0] last by simp
  also have "\<dots> = replicate (length pre) (False, ?h0) @ (False, ?h1) # replicate (length post) (True, ?h1)"
    by (simp add: pre step post)
  finally show ?thesis by (simp add: h0 pre)
qed

theorem Home_waits_then_finishes_once_witness:
  "\<not> (NotReady 1 = Ready \<and> Ready = Ready) \<and>
   \<not> (Ready = Ready \<and> NotReady 2 = Ready) \<and>
   Steps ([(NotReady 1, Ready), (Ready, NotReady 2)] @ (Ready, Ready) # [(NotReady 3, NotReady 4)])
     (fst (Reset id 0 (\<lparr>state = ERRInternal, error = INTERNAL\<rparr>, ()))) =
   [(False, \<lparr>state = Homing, error = RUNNING\<rparr>),
    (False, \<lparr>state = Homing, error = RUNNING\<rparr>),
    (False, \<lparr>state = ProgressCode.OK, error = ErrorCode.OK\<rparr>),
    (True, \<lparr>state = ProgressCode.OK, error = ErrorCode.OK\<rparr>)]"
proof -
  have w: "\<forall>(i, s) \<in> set [(NotReady 1, Ready), (Ready, NotReady 2)]. \<not> (i = Ready \<and> s = Ready)"
    by simp
  have "Steps ([(NotReady 1, Ready), (Ready, NotReady 2)] @ (Ready, Ready) # [(NotReady 3, NotReady 4)])
          (fst (Reset id 0 (\<lparr>state = ERRInternal, error = INTERNAL\<rparr>, ()))) =
        replicate (length [(NotReady 1, Ready), (Ready, NotReady 2)]) (False, \<lparr>state = Homing, error = RUNNING\<rparr>) @
        (False, \<lparr>state = ProgressCode.OK, error = ErrorCode.OK\<rparr>) #
        replicate (length [(NotReady 3, NotReady 4)]) (True, \<lparr>state = ProgressCode.OK, error = ErrorCode.OK\<rparr>)"
    using Home_waits_then_finishes_once [OF w] by (rule conjunct2)
  also have "\<dots> =
      [(False, \<lparr>state = Homing, error = RUNNING\<rparr>),
       (False, \<lparr>state = Homing, error = RUNNING\<rparr>),
       (False, \<lparr>state = ProgressCode.OK, error = ErrorCode.OK\<rparr>),
       (True, \<lparr>state = ProgressCode.OK, error = ErrorCode.OK\<rparr>)]"
    by (simp add: numeral_2_eq_2)
  finally have r: "Steps ([(NotReady 1, Ready), (Ready, NotReady 2)] @ (Ready, Ready) # [(NotReady 3, NotReady 4)])
          (fst (Reset id 0 (\<lparr>state = ERRInternal, error = INTERNAL\<rparr>, ()))) =
      [(False, \<lparr>state = Homing, error = RUNNING\<rparr>),
       (False, \<lparr>state = Homing, error = RUNNING\<rparr>),
       (False, \<lparr>state = ProgressCode.OK, error = ErrorCode.OK\<rparr>),
       (True, \<lparr>state = ProgressCode.OK, error = ErrorCode.OK\<rparr>)]" .
  have n1: "\<not> (NotReady 1 = Ready \<and> Ready = Ready)" by simp
  have n2: "\<not> (Ready = Ready \<and> NotReady 2 = Ready)" by simp
  from n1 n2 r show ?thesis by (intro conjI)
qed

subsection \<open>The defensive branch\<close>

text \<open>
  C8. When \<open>state\<close> holds a value that is neither \<open>Homing\<close> nor \<open>OK\<close>, a step
  sets \<open>state = ERRInternal\<close> and \<open>error = INTERNAL\<close> and returns \<open>true\<close>.
\<close>

theorem Home_unmodelled_state:
  "state h \<noteq> Homing \<Longrightarrow> state h \<noteq> ProgressCode.OK \<Longrightarrow>
   StepInner i s h = (True, h\<lparr>state := ERRInternal, error := INTERNAL\<rparr>)"
  by (rule StepInner_other)

theorem Home_unmodelled_state_witness:
  "state \<lparr>state = OtherProgress 42, error = RUNNING\<rparr> \<noteq> Homing \<and>
   state \<lparr>state = OtherProgress 42, error = RUNNING\<rparr> \<noteq> ProgressCode.OK \<and>
   StepInner (NotReady 1) Ready \<lparr>state = OtherProgress 42, error = RUNNING\<rparr> =
     (True, \<lparr>state = ERRInternal, error = INTERNAL\<rparr>)"
  using Home_unmodelled_state [of "\<lparr>state = OtherProgress 42, error = RUNNING\<rparr>" "NotReady 1" Ready]
  by simp

subsection \<open>State and error in lockstep\<close>

lemma StepInner_lockstep: "lockstep h \<Longrightarrow> lockstep (snd (StepInner i s h))"
  by (auto simp add: lockstep_def StepInner_def)

lemma Reset_lockstep: "lockstep (fst (Reset invalidate p hw))"
  by (simp add: lockstep_def)

lemma call_lockstep: "lockstep (fst hw) \<Longrightarrow> lockstep (fst (call invalidate c hw))"
  by (cases c) (simp_all add: Reset_lockstep StepInner_lockstep)

lemma calls_lockstep: "lockstep (fst hw) \<Longrightarrow> lockstep (fst (calls invalidate cs hw))"
  by (induction cs arbitrary: hw) (simp_all add: call_lockstep)

text \<open>
  From a \<open>Reset\<close> the two operations only ever reach \<open>Homing\<close> and \<open>OK\<close>: the
  defensive branch is taken only when the state has been forced from outside.
\<close>

lemma calls_Homing_or_OK:
  "state (fst hw) = Homing \<or> state (fst hw) = ProgressCode.OK \<Longrightarrow>
   state (fst (calls invalidate cs hw)) = Homing \<or>
   state (fst (calls invalidate cs hw)) = ProgressCode.OK"
proof (induction cs arbitrary: hw)
  case Nil
  then show ?case by simp
next
  case (Cons c cs)
  have "state (fst (call invalidate c hw)) = Homing \<or>
        state (fst (call invalidate c hw)) = ProgressCode.OK"
    using Cons.prems by (cases c) (auto simp add: StepInner_def)
  then show ?case using Cons.IH by simp
qed

text \<open>
  C10. Starting from a \<open>Reset\<close>, after any sequence of \<open>Reset\<close> and step calls the
  pair of \<open>state\<close> and \<open>error\<close> is one of (\<open>Homing\<close>, \<open>RUNNING\<close>), (\<open>OK\<close>,
  \<open>OK\<close>) and (\<open>ERRInternal\<close>, \<open>INTERNAL\<close>).
\<close>

theorem Home_state_error_lockstep:
  "lockstep (fst (calls invalidate cs (Reset invalidate p hw)))"
  by (rule calls_lockstep) (rule Reset_lockstep)

section \<open>Properties of the register functions\<close>

subsection \<open>Memory and conversions\<close>

lemma load_store_u16: "load_u16 (store_u16 m p v) p = v"
  unfolding load_u16_def store_u16_def
  by (rule bit_word_eqI) (auto simp: bit_word_cat_iff bit_ucast_iff bit_drop_bit_eq)

lemma load_store_u8: "ucast (load_u8 (store_u8 m p (ucast v)) p) = (v AND 0xFF :: u16)"
proof -
  have m: "(0xFF :: u16) = mask 8" by (simp add: mask_eq_decr_exp)
  show ?thesis
    unfolding load_u8_def store_u8_def m
    by (rule bit_word_eqI) (auto simp: bit_ucast_iff bit_and_iff bit_mask_iff)
qed

subsection \<open>The descriptors of the table\<close>

lemma flags_addr:
  "flags (RegisterRec_addr w n p) =
     \<lparr>writable = w, rwfuncs = False, rsize = ucast (of_nat n :: u8)\<rparr>"
  by (simp add: RegisterRec_addr_def RegisterFlags2_def)

lemma flags_r:
  "flags (RegisterRec_r f n) = \<lparr>writable = False, rwfuncs = True, rsize = ucast n\<rparr>"
  by (simp add: RegisterRec_r_def RegisterFlags3_def)

lemma flags_rw:
  "flags (RegisterRec_rw f g n) = \<lparr>writable = True, rwfuncs = True, rsize = ucast n\<rparr>"
  by (simp add: RegisterRec_rw_def RegisterFlags3_def)

lemma registersSize_registers: "registersSize (registers X) = 0x1D"
  by (simp add: registersSize_def registers_def)

lemma registersSize_smallTable: "registersSize smallTable = 3"
  by (simp add: registersSize_def smallTable_def)

lemma in_range_not_le: "a < registersSize regs \<Longrightarrow> \<not> registersSize regs \<le> a"
  by simp

text \<open>Which registers of the table accept a write, address by address from 0x00.\<close>

lemma registers_writable:
  "map (\<lambda>r. writable (flags r)) (registers X) =
     [False, False, False, False, False, False, False, True,
      False, True, False, True, True, True, False, False,
      False, True, True, True, True, False, False, False,
      False, False, False, True, True]"
  by (simp add: registers_def flags_addr flags_r flags_rw)

text \<open>
  Every writable descriptor of the table is backed by functions, and every descriptor
  backed by functions has the size 1 or 2: the table has no writable register in raw
  memory, and a descriptor of unrecognised size only if a version variable has a type
  of such a size.
\<close>

lemma registers_writable_rwfuncs:
  "list_all (\<lambda>r. writable (flags r) \<longrightarrow> rwfuncs (flags r)) (registers X)"
  by (simp add: registers_def flags_addr flags_r flags_rw)

lemma registers_rwfuncs_rsize:
  "list_all (\<lambda>r. rwfuncs (flags r) \<longrightarrow> rsize (flags r) = 1 \<or> rsize (flags r) = 2)
     (registers X)"
  by (simp add: registers_def flags_addr flags_r flags_rw)


subsection \<open>Failing accesses\<close>

lemma ReadRegister_out_of_range:
  "registersSize regs \<le> a \<Longrightarrow> ReadRegister regs a value s = (False, value)"
  by (simp add: ReadRegister_def)

lemma WriteRegister_out_of_range:
  "registersSize regs \<le> a \<Longrightarrow> WriteRegister regs a v s = (False, s)"
  by (simp add: WriteRegister_def)

lemma WriteRegister_not_writable:
  "\<not> writable (flags (regs ! unat a)) \<Longrightarrow> WriteRegister regs a v s = (False, s)"
  by (simp add: WriteRegister_def Let_def)

text \<open>
  C1. The table has 0x1D descriptors. For every address from 0x1D on, \<open>ReadRegister\<close>
  fails and leaves \<open>value\<close> as it was, whatever the state holds, and \<open>WriteRegister\<close>
  fails for every value and leaves the state as it was.
\<close>

theorem out_of_range_fails:
  "0x1D \<le> a \<Longrightarrow>
   registersSize (registers X) = 0x1D \<and>
   ReadRegister (registers X) a value s = (False, value) \<and>
   WriteRegister (registers X) a v s = (False, s)"
  by (simp add: registersSize_registers ReadRegister_out_of_range WriteRegister_out_of_range)

theorem out_of_range_fails_witness:
  "(0x1D :: u8) \<le> 0x1D \<and>
   ReadRegister (registers stubModules) 0x1D 0xABCD stubMachine = (False, 0xABCD) \<and>
   WriteRegister (registers stubModules) 0x1D 0x1234 stubMachine = (False, stubMachine)"
proof -
  have h: "(0x1D :: u8) \<le> 0x1D" by simp
  from out_of_range_fails [OF h, of stubModules "0xABCD" stubMachine "0x1234"] h
  show ?thesis by blast
qed

text \<open>
  C3. For every address of the table whose descriptor is not writable,
  \<open>WriteRegister\<close> fails for every value and leaves the state as it was, so that
  \<open>ReadRegister\<close> of that address gives after the failed write what it gave before.
\<close>

theorem read_only_write_fails:
  "a < registersSize (registers X) \<Longrightarrow> \<not> writable (flags (registers X ! unat a)) \<Longrightarrow>
   WriteRegister (registers X) a v s = (False, s) \<and>
   ReadRegister (registers X) a value (snd (WriteRegister (registers X) a v s)) =
     ReadRegister (registers X) a value s"
  by (simp add: WriteRegister_not_writable)

theorem read_only_write_fails_witness:
  "(0x04 :: u8) < registersSize (registers stubModules) \<and>
   \<not> writable (flags (registers stubModules ! unat (0x04 :: u8))) \<and>
   WriteRegister (registers stubModules) 0x04 0x1234 stubMachine = (False, stubMachine)"
proof -
  have h1: "(0x04 :: u8) < registersSize (registers stubModules)"
    by (simp add: registersSize_registers)
  have h2: "\<not> writable (flags (registers stubModules ! unat (0x04 :: u8)))"
    by (simp add: registers_def flags_r)
  from read_only_write_fails [OF h1 h2, of "0x1234" stubMachine] h1 h2
  show ?thesis by blast
qed

text \<open>
  C9. \<open>ReadRegister\<close> sets \<open>value\<close> to 0 before it looks at the descriptor: at an
  address of the table whose descriptor has the size field 3, the only value the
  two-bit field has beyond 0, 1 and 2, the call fails and \<open>value\<close> is 0; at an address
  beyond the table the call fails and \<open>value\<close> is what it was.
\<close>

theorem failed_read_value:
  "(a < registersSize regs \<and> rsize (flags (regs ! unat a)) = 3 \<longrightarrow>
      ReadRegister regs a value s = (False, 0)) \<and>
   (registersSize regs \<le> a \<longrightarrow> ReadRegister regs a value s = (False, value))"
  by (auto simp add: ReadRegister_def Let_def)

theorem failed_read_value_witness:
  "(2 :: u8) < registersSize smallTable \<and>
   rsize (flags (smallTable ! unat (2 :: u8))) = 3 \<and>
   ReadRegister smallTable 2 0xBEEF stubMachine = (False, 0) \<and>
   registersSize smallTable \<le> 3 \<and>
   ReadRegister smallTable 3 0xBEEF stubMachine = (False, 0xBEEF)"
proof -
  have a1: "(2 :: u8) < registersSize smallTable" by (simp add: registersSize_smallTable)
  have a2: "rsize (flags (smallTable ! unat (2 :: u8))) = 3" by (simp add: smallTable_def flags_r)
  have a3: "ReadRegister smallTable 2 0xBEEF stubMachine = (False, 0)"
    using failed_read_value [of 2 smallTable "0xBEEF" stubMachine] a1 a2 by blast
  have b1: "registersSize smallTable \<le> 3" by (simp add: registersSize_smallTable)
  have b2: "ReadRegister smallTable 3 0xBEEF stubMachine = (False, 0xBEEF)"
    using failed_read_value [of 3 smallTable "0xBEEF" stubMachine] b1 by blast
  from a1 a2 a3 b1 b2 show ?thesis by blast
qed

subsection \<open>Registers in raw memory\<close>

text \<open>
  C6. For a writable register of the table that is kept in raw memory, a successful
  \<open>WriteRegister\<close> of \<open>v\<close> followed by \<open>ReadRegister\<close> gives the low byte of \<open>v\<close>
  when the declared width is 1 byte and \<open>v\<close> itself when it is 2 bytes.
\<close>

theorem raw_write_read_roundtrip:
  assumes "a < registersSize regs"
    and "writable (flags (regs ! unat a))"
    and "\<not> rwfuncs (flags (regs ! unat a))"
    and "fst (WriteRegister regs a v s)"
  shows "(rsize (flags (regs ! unat a)) = 1 \<longrightarrow>
           ReadRegister regs a value (snd (WriteRegister regs a v s)) = (True, v AND 0xFF)) \<and>
         (rsize (flags (regs ! unat a)) = 2 \<longrightarrow>
           ReadRegister regs a value (snd (WriteRegister regs a v s)) = (True, v))"
proof -
  let ?r = "regs ! unat a"
  have inr: "\<not> registersSize regs \<le> a" using assms(1) by simp
  have one: "ReadRegister regs a value (snd (WriteRegister regs a v s)) = (True, v AND 0xFF)"
    if "rsize (flags ?r) = 1"
    using that assms(2,3) inr
    by (simp add: WriteRegister_def ReadRegister_def Let_def load_store_u8)
  have two: "ReadRegister regs a value (snd (WriteRegister regs a v s)) = (True, v)"
    if "rsize (flags ?r) = 2"
    using that assms(2,3) inr
    by (simp add: WriteRegister_def ReadRegister_def Let_def load_store_u16)
  from one two show ?thesis by blast
qed

theorem raw_write_read_roundtrip_witness:
  "((0 :: u8) < registersSize smallTable \<and>
    writable (flags (smallTable ! unat (0 :: u8))) \<and>
    \<not> rwfuncs (flags (smallTable ! unat (0 :: u8))) \<and>
    fst (WriteRegister smallTable 0 0x1234 stubMachine) \<and>
    rsize (flags (smallTable ! unat (0 :: u8))) = 1 \<and>
    ReadRegister smallTable 0 0xFFFF (snd (WriteRegister smallTable 0 0x1234 stubMachine)) =
      (True, 0x34)) \<and>
   ((1 :: u8) < registersSize smallTable \<and>
    writable (flags (smallTable ! unat (1 :: u8))) \<and>
    \<not> rwfuncs (flags (smallTable ! unat (1 :: u8))) \<and>
    fst (WriteRegister smallTable 1 0x1234 stubMachine) \<and>
    rsize (flags (smallTable ! unat (1 :: u8))) = 2 \<and>
    ReadRegister smallTable 1 0xFFFF (snd (WriteRegister smallTable 1 0x1234 stubMachine)) =
      (True, 0x1234))"
proof -
  have a1: "(0 :: u8) < registersSize smallTable" by (simp add: registersSize_smallTable)
  have a2: "writable (flags (smallTable ! unat (0 :: u8)))" by (simp add: smallTable_def flags_addr)
  have a3: "\<not> rwfuncs (flags (smallTable ! unat (0 :: u8)))" by (simp add: smallTable_def flags_addr)
  have a5: "rsize (flags (smallTable ! unat (0 :: u8))) = 1" by (simp add: smallTable_def flags_addr)
  have a4: "fst (WriteRegister smallTable 0 0x1234 stubMachine)"
    using a1 [THEN in_range_not_le] a2 a3 a5 by (simp add: WriteRegister_def Let_def)
  have "ReadRegister smallTable 0 0xFFFF (snd (WriteRegister smallTable 0 0x1234 stubMachine)) =
      (True, 0x1234 AND 0xFF)"
    using raw_write_read_roundtrip [OF a1 a2 a3 a4] a5 by blast
  then have a6: "ReadRegister smallTable 0 0xFFFF (snd (WriteRegister smallTable 0 0x1234 stubMachine)) =
      (True, 0x34)" by simp
  have b1: "(1 :: u8) < registersSize smallTable" by (simp add: registersSize_smallTable)
  have b2: "writable (flags (smallTable ! unat (1 :: u8)))" by (simp add: smallTable_def flags_addr)
  have b3: "\<not> rwfuncs (flags (smallTable ! unat (1 :: u8)))" by (simp add: smallTable_def flags_addr)
  have b5: "rsize (flags (smallTable ! unat (1 :: u8))) = 2" by (simp add: smallTable_def flags_addr)
  have b4: "fst (WriteRegister smallTable 1 0x1234 stubMachine)"
    using b1 [THEN in_range_not_le] b2 b3 b5 by (simp add: WriteRegister_def Let_def)
  have b6: "ReadRegister smallTable 1 0xFFFF (snd (WriteRegister smallTable 1 0x1234 stubMachine)) =
      (True, 0x1234)"
    using raw_write_read_roundtrip [OF b1 b2 b3 b4] b5 by blast
  from a1 a2 a3 a4 a5 a6 b1 b2 b3 b4 b5 b6 show ?thesis by blast
qed

subsection \<open>The idler slot register\<close>







end
